theory Spec2Isabelle
  imports Main "HOL-Library.AList" "HOL-Library.Multiset"
begin

section \<open>Data model\<close>

text \<open>
  The chat server keeps its users and messages in two database tables and its presence
  map and theme catalogue in the fields of the class \<open>PostgresStorage\<close>
  (\<open>server/storage.ts\<close>). Numbers that the code uses as identifiers are integers here;
  a \<open>Date\<close> is the integer number of milliseconds it wraps, which is what the
  comparison operators of the language compare. The database answers every query: the
  \<open>catch\<close> branches, which the code takes when a query fails, are outside the model.
\<close>

datatype jsval = JNull | JNum int | JStr string | JDate int | JBool bool

type_synonym jsobject = "(string \<times> jsval) list"

text \<open>
  Modelled from the spec: the row types \<open>User\<close>, \<open>Message\<close> and the payload types
  \<open>SignUpData\<close>, \<open>InsertMessage\<close>, \<open>UpdateMessage\<close> are declared in
  \<open>shared/schema.ts\<close>, which is not among the sources; their fields are the attributes
  that section 3 of the specification lists.
\<close>

record User =
  user_id :: int
  username :: string
  email :: string
  password :: string
  firstName :: string
  lastName :: string
  avatar :: "string option"
  bio :: "string option"
  location :: "string option"
  website :: "string option"
  dateOfBirth :: "string option"
  user_createdAt :: int
  lastActivity :: "int option"

record SignUpData =
  su_username :: string
  su_email :: string
  su_password :: string
  su_firstName :: string
  su_lastName :: string

record Message =
  msg_id :: int
  content :: string
  msg_username :: string
  userId :: int
  attachmentUrl :: "string option"
  attachmentType :: "string option"
  attachmentName :: "string option"
  msg_createdAt :: int
  updatedAt :: "int option"

record InsertMessage =
  im_content :: string
  im_username :: string
  im_userId :: int
  im_attachmentUrl :: "string option"
  im_attachmentType :: "string option"
  im_attachmentName :: "string option"

record UpdateMessage =
  upd_content :: string

record ChatTheme =
  theme_id :: int
  theme_name :: string
  primaryColor :: string
  secondaryColor :: string
  backgroundColor :: string
  messageBackgroundSelf :: string
  messageBackgroundOther :: string
  textColor :: string
  isActive :: bool
  theme_createdAt :: int

text \<open>
  The database: each table is the list of its rows in insertion order, with the counter of
  its serial \<open>id\<close> column.
\<close>

record Database =
  users :: "User list"
  users_id_seq :: int
  messages :: "Message list"
  messages_id_seq :: int

record Storage =
  db :: Database
  userActivity :: "int \<rightharpoonup> int"
  currentTheme :: ChatTheme
  themes :: "int \<rightharpoonup> ChatTheme"

section \<open>The query builder\<close>

text \<open>
  A condition built by the query builder is an object that stands for a predicate on rows.
  \<open>eq(column, value)\<close> builds one. The operator \<open>&&\<close> of the language is not
  a query operator: \<open>a && b\<close> evaluates to \<open>b\<close> when \<open>a\<close> is truthy and to \<open>a\<close>
  otherwise, and every object is truthy.
\<close>

datatype 'r SQL = SQL "'r \<Rightarrow> bool"

fun holds :: "'r SQL \<Rightarrow> 'r \<Rightarrow> bool" where
  "holds (SQL p) r = p r"

definition eq_col :: "('r \<Rightarrow> 'v) \<Rightarrow> 'v \<Rightarrow> 'r SQL" where
  "eq_col col v = SQL (\<lambda>r. col r = v)"

fun js_truthy :: "'r SQL \<Rightarrow> bool" where
  "js_truthy (SQL p) = True"

definition js_and :: "'r SQL \<Rightarrow> 'r SQL \<Rightarrow> 'r SQL" where
  "js_and a b = (if js_truthy a then b else a)"

definition select_where :: "'r SQL \<Rightarrow> 'r list \<Rightarrow> 'r list" where
  "select_where c rows = filter (holds c) rows"

text \<open>\<open>update ... set ... where ... returning\<close>: the new table and the rows it changed.\<close>

definition update_where :: "('r \<Rightarrow> 'r) \<Rightarrow> 'r SQL \<Rightarrow> 'r list \<Rightarrow> 'r list \<times> 'r list" where
  "update_where f c rows =
     (map (\<lambda>r. if holds c r then f r else r) rows, map f (filter (holds c) rows))"

text \<open>\<open>delete ... where ... returning\<close>: the new table and the rows it removed.\<close>

definition delete_where :: "'r SQL \<Rightarrow> 'r list \<Rightarrow> 'r list \<times> 'r list" where
  "delete_where c rows = (filter (\<lambda>r. \<not> holds c r) rows, filter (holds c) rows)"

text \<open>\<open>result[0]\<close>, which is \<open>undefined\<close> on an empty result.\<close>

fun first_row :: "'r list \<Rightarrow> 'r option" where
  "first_row [] = None"
| "first_row (r # rs) = Some r"

text \<open>\<open>x || null\<close> on an optional string: the empty string is falsy.\<close>

fun or_null :: "string option \<Rightarrow> string option" where
  "or_null None = None"
| "or_null (Some s) = (if s = [] then None else Some s)"

section \<open>Themes\<close>

text \<open>
  \<open>initializeThemes\<close> fills the catalogue with six themes. Each entry reads the clock for
  its \<open>createdAt\<close>; \<open>clock i\<close> is the reading taken for theme \<open>i\<close>.
\<close>

definition defaultThemes :: "(int \<Rightarrow> int) \<Rightarrow> ChatTheme list" where
  "defaultThemes clock =
    [\<lparr>theme_id = 1, theme_name = ''Classic Blue'', primaryColor = ''#3b82f6'',
      secondaryColor = ''#1e40af'', backgroundColor = ''#f8fafc'',
      messageBackgroundSelf = ''#3b82f6'', messageBackgroundOther = ''#e2e8f0'',
      textColor = ''#1e293b'', isActive = True, theme_createdAt = clock 1\<rparr>,
     \<lparr>theme_id = 2, theme_name = ''Sunset Orange'', primaryColor = ''#f59e0b'',
      secondaryColor = ''#d97706'', backgroundColor = ''#fef3c7'',
      messageBackgroundSelf = ''#f59e0b'', messageBackgroundOther = ''#fed7aa'',
      textColor = ''#92400e'', isActive = False, theme_createdAt = clock 2\<rparr>,
     \<lparr>theme_id = 3, theme_name = ''Forest Green'', primaryColor = ''#10b981'',
      secondaryColor = ''#059669'', backgroundColor = ''#ecfdf5'',
      messageBackgroundSelf = ''#10b981'', messageBackgroundOther = ''#d1fae5'',
      textColor = ''#064e3b'', isActive = False, theme_createdAt = clock 3\<rparr>,
     \<lparr>theme_id = 4, theme_name = ''Purple Dreams'', primaryColor = ''#8b5cf6'',
      secondaryColor = ''#7c3aed'', backgroundColor = ''#f3f4f6'',
      messageBackgroundSelf = ''#8b5cf6'', messageBackgroundOther = ''#e5e7eb'',
      textColor = ''#374151'', isActive = False, theme_createdAt = clock 4\<rparr>,
     \<lparr>theme_id = 5, theme_name = ''Rose Gold'', primaryColor = ''#f43f5e'',
      secondaryColor = ''#e11d48'', backgroundColor = ''#fdf2f8'',
      messageBackgroundSelf = ''#f43f5e'', messageBackgroundOther = ''#fce7f3'',
      textColor = ''#881337'', isActive = False, theme_createdAt = clock 5\<rparr>,
     \<lparr>theme_id = 6, theme_name = ''Dark Mode'', primaryColor = ''#6366f1'',
      secondaryColor = ''#4f46e5'', backgroundColor = ''#111827'',
      messageBackgroundSelf = ''#6366f1'', messageBackgroundOther = ''#374151'',
      textColor = ''#f9fafb'', isActive = False, theme_createdAt = clock 6\<rparr>]"

definition initializeThemes :: "(int \<Rightarrow> int) \<Rightarrow> (int \<rightharpoonup> ChatTheme) \<Rightarrow> (int \<rightharpoonup> ChatTheme)" where
  "initializeThemes clock m = fold (\<lambda>theme acc. acc(theme_id theme \<mapsto> theme)) (defaultThemes clock) m"

text \<open>
  The constructor: an empty presence map, the seeded catalogue, theme 1 as the current
  theme. The tables live in the database and are whatever they were before the process
  started.
\<close>

definition PostgresStorage :: "(int \<Rightarrow> int) \<Rightarrow> Database \<Rightarrow> Storage" where
  "PostgresStorage clock d =
     (let ths = initializeThemes clock Map.empty
      in \<lparr>db = d, userActivity = Map.empty, currentTheme = the (ths 1), themes = ths\<rparr>)"

definition empty_database :: Database where
  "empty_database = \<lparr>users = [], users_id_seq = 0, messages = [], messages_id_seq = 0\<rparr>"

definition getActiveTheme :: "Storage \<Rightarrow> ChatTheme" where
  "getActiveTheme st = currentTheme st"

datatype error = ThemeNotFound int

definition setActiveTheme :: "int \<Rightarrow> Storage \<Rightarrow> (error + ChatTheme) \<times> Storage" where
  "setActiveTheme themeId st =
     (case themes st themeId of
        None \<Rightarrow> (Inl (ThemeNotFound themeId), st)
      | Some theme \<Rightarrow> (Inr theme, st\<lparr>currentTheme := theme\<rparr>))"

section \<open>Users\<close>

definition getUser :: "int \<Rightarrow> Storage \<Rightarrow> User option" where
  "getUser i st = first_row (take 1 (select_where (eq_col user_id i) (users (db st))))"

definition getUserByEmail :: "string \<Rightarrow> Storage \<Rightarrow> User option" where
  "getUserByEmail e st = first_row (take 1 (select_where (eq_col email e) (users (db st))))"

definition getUserByUsername :: "string \<Rightarrow> Storage \<Rightarrow> User option" where
  "getUserByUsername n st =
     first_row (take 1 (select_where (eq_col username n) (users (db st))))"

text \<open>The object the database driver returns for a row of the users table.\<close>

definition opt_str :: "string option \<Rightarrow> jsval" where
  "opt_str x = (case x of None \<Rightarrow> JNull | Some s \<Rightarrow> JStr s)"

definition opt_date :: "int option \<Rightarrow> jsval" where
  "opt_date x = (case x of None \<Rightarrow> JNull | Some t \<Rightarrow> JDate t)"

definition user_object :: "User \<Rightarrow> jsobject" where
  "user_object u =
    [(''id'', JNum (user_id u)), (''username'', JStr (username u)),
     (''email'', JStr (email u)), (''password'', JStr (password u)),
     (''firstName'', JStr (firstName u)), (''lastName'', JStr (lastName u)),
     (''avatar'', opt_str (avatar u)), (''bio'', opt_str (bio u)),
     (''location'', opt_str (location u)), (''website'', opt_str (website u)),
     (''dateOfBirth'', opt_str (dateOfBirth u)), (''createdAt'', JDate (user_createdAt u)),
     (''lastActivity'', opt_date (lastActivity u))]"

text \<open>\<open>const { password, ...userWithoutPassword } = user\<close>\<close>

definition userWithoutPassword :: "jsobject \<Rightarrow> jsobject" where
  "userWithoutPassword obj = AList.delete ''password'' obj"

text \<open>
  Both listings read the whole users table with a query that names no order. \<open>scan\<close> is
  the order in which the database delivers the rows of that query, a rearrangement of the
  table.
\<close>

definition getAllUsers :: "(User list \<Rightarrow> User list) \<Rightarrow> Storage \<Rightarrow> jsobject list" where
  "getAllUsers scan st =
     map (\<lambda>user. userWithoutPassword (user_object user)) (scan (users (db st)))"

definition getOnlineUsers :: "(User list \<Rightarrow> User list) \<Rightarrow> Storage \<Rightarrow> jsobject list" where
  "getOnlineUsers scan st =
     map (\<lambda>user.
            let lastActive = userActivity st (user_id user)
            in AList.update ''lastActivity'' (opt_date lastActive)
                 (userWithoutPassword (user_object user)))
         (scan (users (db st)))"

text \<open>
  Modelled from the spec: the users table (\<open>shared/schema.ts\<close>, not among the sources)
  assigns the next sequential id and the creation time, and leaves the optional profile
  fields empty.
\<close>

definition createUser :: "int \<Rightarrow> SignUpData \<Rightarrow> Storage \<Rightarrow> User \<times> Storage" where
  "createUser now signUpData st =
     (let d = db st;
          i = users_id_seq d + 1;
          row = \<lparr>user_id = i, username = su_username signUpData, email = su_email signUpData,
                 password = su_password signUpData, firstName = su_firstName signUpData,
                 lastName = su_lastName signUpData, avatar = None, bio = None,
                 location = None, website = None, dateOfBirth = None,
                 user_createdAt = now, lastActivity = None\<rparr>
      in (row, st\<lparr>db := d\<lparr>users := users d @ [row], users_id_seq := i\<rparr>\<rparr>))"

section \<open>Presence\<close>

definition isUserActive :: "int \<Rightarrow> Storage \<Rightarrow> int \<Rightarrow> bool" where
  "isUserActive now st uid =
     (let fiveMinutesAgo = now - 5 * 60 * 1000
      in case userActivity st uid of
           None \<Rightarrow> True
         | Some lastActive \<Rightarrow> lastActive > fiveMinutesAgo)"

definition getUsersCount :: "int \<Rightarrow> Storage \<Rightarrow> nat" where
  "getUsersCount now st =
     fold (\<lambda>user activeRegisteredUsers.
             if isUserActive now st (user_id user) then activeRegisteredUsers + 1
             else activeRegisteredUsers)
          (users (db st)) 0"

text \<open>
  \<open>updateUserActivity\<close> reads the clock twice: once for the presence map (\<open>now\<close>) and once
  for the column of the users table (\<open>now'\<close>).
\<close>

definition updateUserActivity :: "int \<Rightarrow> int \<Rightarrow> int \<Rightarrow> Storage \<Rightarrow> Storage" where
  "updateUserActivity now now' uid st =
     (let st1 = st\<lparr>userActivity := (userActivity st)(uid \<mapsto> now)\<rparr>;
          d = db st1
      in st1\<lparr>db := d\<lparr>users :=
                  fst (update_where (\<lambda>u. u\<lparr>lastActivity := Some now'\<rparr>) (eq_col user_id uid)
                         (users d))\<rparr>\<rparr>)"

definition getTotalUsersCount :: "Storage \<Rightarrow> nat" where
  "getTotalUsersCount st = length (users (db st))"

section \<open>Messages\<close>

text \<open>
  The database sorts the rows it reads by the requested key. The code names no second key,
  so the order in which the database visits rows of equal key is its own: \<open>scan\<close> is
  that order, a rearrangement of the table.
\<close>

definition orderBy :: "('r \<Rightarrow> int) \<Rightarrow> 'r list \<Rightarrow> 'r list" where
  "orderBy key rows = sort_key key rows"

definition getMessages :: "(Message list \<Rightarrow> Message list) \<Rightarrow> Storage \<Rightarrow> Message list" where
  "getMessages scan st = orderBy msg_createdAt (scan (messages (db st)))"

definition createMessage :: "int \<Rightarrow> InsertMessage \<Rightarrow> Storage \<Rightarrow> Message \<times> Storage" where
  "createMessage now insertMessage st =
     (let d = db st;
          i = messages_id_seq d + 1;
          row = \<lparr>msg_id = i, content = im_content insertMessage,
                 msg_username = im_username insertMessage, userId = im_userId insertMessage,
                 attachmentUrl = or_null (im_attachmentUrl insertMessage),
                 attachmentType = or_null (im_attachmentType insertMessage),
                 attachmentName = or_null (im_attachmentName insertMessage),
                 msg_createdAt = now, updatedAt = None\<rparr>
      in (row, st\<lparr>db := d\<lparr>messages := messages d @ [row], messages_id_seq := i\<rparr>\<rparr>))"

definition updateMessage ::
  "int \<Rightarrow> int \<Rightarrow> int \<Rightarrow> UpdateMessage \<Rightarrow> Storage \<Rightarrow> Message option \<times> Storage" where
  "updateMessage now i uid updates st =
     (let d = db st;
          (rows, result) =
             update_where (\<lambda>m. m\<lparr>content := upd_content updates, updatedAt := Some now\<rparr>)
               (js_and (eq_col msg_id i) (eq_col userId uid)) (messages d)
      in (first_row result, st\<lparr>db := d\<lparr>messages := rows\<rparr>\<rparr>))"

definition deleteMessage :: "int \<Rightarrow> int \<Rightarrow> Storage \<Rightarrow> bool \<times> Storage" where
  "deleteMessage i uid st =
     (let d = db st;
          (rows, result) =
             delete_where (js_and (eq_col msg_id i) (eq_col userId uid)) (messages d)
      in (length result > 0, st\<lparr>db := d\<lparr>messages := rows\<rparr>\<rparr>))"

definition getMessageById :: "int \<Rightarrow> Storage \<Rightarrow> Message option" where
  "getMessageById i st =
     first_row (take 1 (select_where (eq_col msg_id i) (messages (db st))))"

section \<open>The sign-up route\<close>

text \<open>
  \<open>parse\<close> is \<open>signUpSchema.parse\<close> (declared in \<open>shared/schema.ts\<close>): \<open>None\<close> is the
  validation error it throws.
\<close>

datatype response_body =
    MessageJson string
  | ValidationErrorJson
  | UserJson jsobject

record response =
  status :: nat
  json :: response_body

definition signup ::
  "('b \<Rightarrow> SignUpData option) \<Rightarrow> int \<Rightarrow> 'b \<Rightarrow> Storage \<Rightarrow> response \<times> Storage" where
  "signup parse now body st =
     (case parse body of
        None \<Rightarrow> (\<lparr>status = 400, json = ValidationErrorJson\<rparr>, st)
      | Some validatedData \<Rightarrow>
          (case getUserByEmail (su_email validatedData) st of
             Some existingUserByEmail \<Rightarrow>
               (\<lparr>status = 400, json = MessageJson ''User with this email already exists''\<rparr>, st)
           | None \<Rightarrow>
               (case getUserByUsername (su_username validatedData) st of
                  Some existingUserByUsername \<Rightarrow>
                    (\<lparr>status = 400, json = MessageJson ''Username already taken''\<rparr>, st)
                | None \<Rightarrow>
                    (let (user, st') = createUser now validatedData st
                     in (\<lparr>status = 201, json = UserJson (userWithoutPassword (user_object user))\<rparr>,
                         st')))))"

section \<open>Reachable states\<close>

text \<open>
  The states the server can be in: a fresh database under a new process, and from any
  state a restart of the process or one storage operation.
\<close>

inductive reachable :: "Storage \<Rightarrow> bool" where
  fresh: "reachable (PostgresStorage clock empty_database)"
| restart: "reachable st \<Longrightarrow> reachable (PostgresStorage clock (db st))"
| create_user: "reachable st \<Longrightarrow> reachable (snd (createUser now d st))"
| create_message: "reachable st \<Longrightarrow> reachable (snd (createMessage now im st))"
| update_message: "reachable st \<Longrightarrow> reachable (snd (updateMessage now i uid upd st))"
| delete_message: "reachable st \<Longrightarrow> reachable (snd (deleteMessage i uid st))"
| set_theme: "reachable st \<Longrightarrow> reachable (snd (setActiveTheme themeId st))"
| heartbeat: "reachable st \<Longrightarrow> reachable (updateUserActivity now now' uid st)"

section \<open>Invariants\<close>

text \<open>
  What the serial columns guarantee about the tables: no row carries an id beyond the
  counter of its table, and no two messages share an id. The catalogue of themes is the
  seeded one.
\<close>

definition db_inv :: "Database \<Rightarrow> bool" where
  "db_inv d \<longleftrightarrow>
     (\<forall>u \<in> set (users d). user_id u \<le> users_id_seq d) \<and>
     (\<forall>m \<in> set (messages d). msg_id m \<le> messages_id_seq d) \<and>
     distinct (map msg_id (messages d))"

definition theme_inv :: "Storage \<Rightarrow> bool" where
  "theme_inv st \<longleftrightarrow> (\<exists>clock. themes st = initializeThemes clock Map.empty)"

section \<open>Example states\<close>

text \<open>
  A server started on an empty database in which three messages were posted at the same
  instant: two by user 1 and one by user 2.
\<close>

definition ex_clock :: "int \<Rightarrow> int" where
  "ex_clock i = 0"

definition ex_insert :: "int \<Rightarrow> string \<Rightarrow> InsertMessage" where
  "ex_insert uid txt =
     \<lparr>im_content = txt, im_username = ''u'', im_userId = uid, im_attachmentUrl = None,
      im_attachmentType = None, im_attachmentName = None\<rparr>"

definition ex_feed :: Storage where
  "ex_feed =
     snd (createMessage 7 (ex_insert 2 ''c'')
       (snd (createMessage 7 (ex_insert 1 ''b'')
         (snd (createMessage 7 (ex_insert 1 ''a'') (PostgresStorage ex_clock empty_database))))))"

definition ex_message :: "int \<Rightarrow> int \<Rightarrow> string \<Rightarrow> Message" where
  "ex_message i uid txt =
     \<lparr>msg_id = i, content = txt, msg_username = ''u'', userId = uid, attachmentUrl = None,
      attachmentType = None, attachmentName = None, msg_createdAt = 7, updatedAt = None\<rparr>"

text \<open>
  A patch, and a server started on an empty database on which two users signed up.
\<close>

definition ex_patch :: UpdateMessage where
  "ex_patch = \<lparr>upd_content = ''x''\<rparr>"

definition ex_signup :: "string \<Rightarrow> string \<Rightarrow> SignUpData" where
  "ex_signup n e =
     \<lparr>su_username = n, su_email = e, su_password = ''pw'', su_firstName = ''F'', su_lastName = ''L''\<rparr>"

definition ex_user :: "int \<Rightarrow> string \<Rightarrow> string \<Rightarrow> User" where
  "ex_user i n e =
     \<lparr>user_id = i, username = n, email = e, password = ''pw'', firstName = ''F'',
      lastName = ''L'', avatar = None, bio = None, location = None, website = None,
      dateOfBirth = None, user_createdAt = 1, lastActivity = None\<rparr>"

definition ex_people :: Storage where
  "ex_people =
     snd (createUser 1 (ex_signup ''b'' ''b@x.com'')
       (snd (createUser 1 (ex_signup ''a'' ''a@x.com'') (PostgresStorage ex_clock empty_database))))"

text \<open>
  An order in which a database can deliver a table: the rows that were never rewritten
  first, the rewritten ones behind them. It is the order of a store that writes the new
  version of an updated row behind the rows it already holds.
\<close>

definition edited_last :: "Message list \<Rightarrow> Message list" where
  "edited_last rows =
     filter (\<lambda>m. updatedAt m = None) rows @ filter (\<lambda>m. updatedAt m \<noteq> None) rows"

definition heartbeat_last :: "User list \<Rightarrow> User list" where
  "heartbeat_last rows =
     filter (\<lambda>u. lastActivity u = None) rows @ filter (\<lambda>u. lastActivity u \<noteq> None) rows"

text \<open>
  A room with one message of user 3 posted at instant 3 and, both posted at instant 7, one
  message of user 1 and then one of user 2; and the same room after user 1 edited their
  message at instant 50.
\<close>

definition ex_room :: Storage where
  "ex_room =
     snd (createMessage 7 (ex_insert 2 ''c'')
       (snd (createMessage 7 (ex_insert 1 ''b'')
         (snd (createMessage 3 (ex_insert 3 ''a'') (PostgresStorage ex_clock empty_database))))))"

definition ex_edited :: Storage where
  "ex_edited = snd (updateMessage 50 2 1 ex_patch ex_room)"

text \<open>The two users after a heartbeat of user 1 at instant 1000.\<close>

definition ex_seen :: Storage where
  "ex_seen = updateUserActivity 1000 1001 1 ex_people"

section \<open>Basic facts\<close>

lemma js_and_objects: "js_and (eq_col c v) (eq_col c' v') = eq_col c' v'"
  by (simp add: js_and_def eq_col_def)

lemma holds_eq_col: "holds (eq_col c v) r \<longleftrightarrow> c r = v"
  by (simp add: eq_col_def)

lemma first_row_take1: "first_row (take 1 xs) = first_row xs"
  by (cases xs) simp_all

lemma first_row_None: "first_row xs = None \<longleftrightarrow> xs = []"
  by (cases xs) simp_all

lemma seeded_catalogue:
  "initializeThemes clock Map.empty =
     [1 \<mapsto> defaultThemes clock ! 0, 2 \<mapsto> defaultThemes clock ! 1, 3 \<mapsto> defaultThemes clock ! 2,
      4 \<mapsto> defaultThemes clock ! 3, 5 \<mapsto> defaultThemes clock ! 4, 6 \<mapsto> defaultThemes clock ! 5]"
  by (simp add: initializeThemes_def defaultThemes_def)

lemma db_inv_empty: "db_inv empty_database"
  by (simp add: db_inv_def empty_database_def)

lemma db_PostgresStorage: "db (PostgresStorage clock d) = d"
  by (simp add: PostgresStorage_def Let_def)

lemma themes_PostgresStorage: "themes (PostgresStorage clock d) = initializeThemes clock Map.empty"
  by (simp add: PostgresStorage_def Let_def)

lemma db_inv_createUser: "db_inv (db st) \<Longrightarrow> db_inv (db (snd (createUser now d st)))"
  by (fastforce simp: db_inv_def createUser_def Let_def)

lemma db_inv_createMessage: "db_inv (db st) \<Longrightarrow> db_inv (db (snd (createMessage now im st)))"
  by (fastforce simp: db_inv_def createMessage_def Let_def)

lemma messages_updateMessage:
  "messages (db (snd (updateMessage now i uid upd st))) =
     map (\<lambda>m. if userId m = uid then m\<lparr>content := upd_content upd, updatedAt := Some now\<rparr> else m)
       (messages (db st))"
  by (simp add: updateMessage_def Let_def update_where_def js_and_objects holds_eq_col)

lemma messages_deleteMessage:
  "messages (db (snd (deleteMessage i uid st))) = filter (\<lambda>m. userId m \<noteq> uid) (messages (db st))"
  by (simp add: deleteMessage_def Let_def delete_where_def js_and_objects holds_eq_col)

lemma db_inv_updateMessage: "db_inv (db st) \<Longrightarrow> db_inv (db (snd (updateMessage now i uid upd st)))"
proof -
  assume a: "db_inv (db st)"
  let ?f = "\<lambda>m. if userId m = uid then m\<lparr>content := upd_content upd, updatedAt := Some now\<rparr> else m"
  have ids: "msg_id \<circ> ?f = msg_id"
    by (auto simp: fun_eq_iff)
  have rest: "users (db (snd (updateMessage now i uid upd st))) = users (db st)"
    "users_id_seq (db (snd (updateMessage now i uid upd st))) = users_id_seq (db st)"
    "messages_id_seq (db (snd (updateMessage now i uid upd st))) = messages_id_seq (db st)"
    by (simp_all add: updateMessage_def Let_def split: prod.splits)
  show ?thesis
    using a unfolding db_inv_def rest messages_updateMessage
    by (auto simp: ids split: if_splits)
qed

lemma db_inv_deleteMessage: "db_inv (db st) \<Longrightarrow> db_inv (db (snd (deleteMessage i uid st)))"
proof -
  assume a: "db_inv (db st)"
  have rest: "users (db (snd (deleteMessage i uid st))) = users (db st)"
    "users_id_seq (db (snd (deleteMessage i uid st))) = users_id_seq (db st)"
    "messages_id_seq (db (snd (deleteMessage i uid st))) = messages_id_seq (db st)"
    by (simp_all add: deleteMessage_def Let_def split: prod.splits)
  show ?thesis
    using a unfolding db_inv_def rest messages_deleteMessage
    by (auto simp: distinct_map_filter)
qed

lemma db_setActiveTheme: "db (snd (setActiveTheme t st)) = db st"
  by (simp add: setActiveTheme_def split: option.splits)

lemma themes_setActiveTheme: "themes (snd (setActiveTheme t st)) = themes st"
  by (simp add: setActiveTheme_def split: option.splits)

lemma db_inv_updateUserActivity:
  "db_inv (db st) \<Longrightarrow> db_inv (db (updateUserActivity now now' uid st))"
proof -
  assume a: "db_inv (db st)"
  let ?f = "\<lambda>r. if user_id r = uid then r\<lparr>lastActivity := Some now'\<rparr> else r"
  have us: "users (db (updateUserActivity now now' uid st)) = map ?f (users (db st))"
    by (simp add: updateUserActivity_def Let_def update_where_def holds_eq_col)
  have rest: "messages (db (updateUserActivity now now' uid st)) = messages (db st)"
    "users_id_seq (db (updateUserActivity now now' uid st)) = users_id_seq (db st)"
    "messages_id_seq (db (updateUserActivity now now' uid st)) = messages_id_seq (db st)"
    by (simp_all add: updateUserActivity_def Let_def)
  show ?thesis
    using a unfolding db_inv_def rest us
    by (auto split: if_splits)
qed

lemma reachable_inv: "reachable st \<Longrightarrow> db_inv (db st) \<and> theme_inv st"
proof (induction rule: reachable.induct)
  case (fresh clock)
  show ?case
    unfolding theme_inv_def db_PostgresStorage themes_PostgresStorage
    using db_inv_empty by blast
next
  case (restart st clock)
  then show ?case
    unfolding theme_inv_def db_PostgresStorage themes_PostgresStorage by blast
next
  case (create_user st now d)
  then show ?case
    by (simp add: db_inv_createUser) (simp add: theme_inv_def createUser_def Let_def)
next
  case (create_message st now im)
  then show ?case
    by (simp add: db_inv_createMessage) (simp add: theme_inv_def createMessage_def Let_def)
next
  case (update_message st now i uid upd)
  then show ?case
    by (simp add: db_inv_updateMessage)
       (simp add: theme_inv_def updateMessage_def Let_def split: prod.splits)
next
  case (delete_message st i uid)
  then show ?case
    by (simp add: db_inv_deleteMessage)
       (simp add: theme_inv_def deleteMessage_def Let_def split: prod.splits)
next
  case (set_theme st themeId)
  then show ?case
    by (simp add: db_setActiveTheme theme_inv_def themes_setActiveTheme)
next
  case (heartbeat st now now' uid)
  then show ?case
    by (simp add: db_inv_updateUserActivity) (simp add: theme_inv_def updateUserActivity_def Let_def)
qed

lemma ex_feed_reachable: "reachable ex_feed"
  unfolding ex_feed_def by (intro reachable.intros)

lemma ex_feed_messages:
  "messages (db ex_feed) = [ex_message 1 1 ''a'', ex_message 2 1 ''b'', ex_message 3 2 ''c'']"
  by (simp add: ex_feed_def createMessage_def Let_def db_PostgresStorage empty_database_def
      ex_insert_def ex_message_def)

lemma reachable_themes:
  "reachable st \<Longrightarrow> \<exists>clock. themes st = initializeThemes clock Map.empty"
  using reachable_inv by (simp add: theme_inv_def)

lemma ex_feed_theme: "currentTheme ex_feed = defaultThemes ex_clock ! 0"
  "themes ex_feed = initializeThemes ex_clock Map.empty"
  by (simp_all add: ex_feed_def createMessage_def Let_def PostgresStorage_def seeded_catalogue)

lemma ex_people_reachable: "reachable ex_people"
  unfolding ex_people_def by (intro reachable.intros)

lemma ex_people_users:
  "users (db ex_people) = [ex_user 1 ''a'' ''a@x.com'', ex_user 2 ''b'' ''b@x.com'']"
  "users_id_seq (db ex_people) = 2"
  "userActivity ex_people = Map.empty"
  by (simp_all add: ex_people_def createUser_def Let_def PostgresStorage_def empty_database_def
      ex_signup_def ex_user_def)

lemma password_stripped: "''password'' \<notin> fst ` set (userWithoutPassword obj)"
  unfolding userWithoutPassword_def by (rule AList.delete_notin_dom)

lemma id_kept: "map_of (userWithoutPassword (user_object u)) ''id'' = Some (JNum (user_id u))"
  by (simp add: userWithoutPassword_def user_object_def)

lemma ex_room_messages:
  "messages (db ex_room) =
     [(ex_message 1 3 ''a'')\<lparr>msg_createdAt := 3\<rparr>, ex_message 2 1 ''b'', ex_message 3 2 ''c'']"
  by (simp add: ex_room_def createMessage_def Let_def db_PostgresStorage empty_database_def
      ex_insert_def ex_message_def)

lemma ex_seen_users:
  "users (db ex_seen) =
     [(ex_user 1 ''a'' ''a@x.com'')\<lparr>lastActivity := Some 1001\<rparr>, ex_user 2 ''b'' ''b@x.com'']"
  by (simp add: ex_seen_def updateUserActivity_def Let_def update_where_def holds_eq_col
      ex_people_users ex_user_def)

lemma getMessages_sorted:
  assumes "mset (scan (messages (db st))) = mset (messages (db st))"
  shows "mset (getMessages scan st) = mset (messages (db st)) \<and>
         sorted (map msg_createdAt (getMessages scan st))"
  using assms by (simp add: getMessages_def orderBy_def)

lemma count_fold:
  "fold (\<lambda>x n. if P x then n + 1 else n) xs (k::nat) = k + length (filter P xs)"
  by (induction xs arbitrary: k) simp_all

lemma isUserActive_iff:
  "isUserActive now st uid \<longleftrightarrow>
     userActivity st uid = None \<or> (\<exists>t. userActivity st uid = Some t \<and> now - t < 5 * 60 * 1000)"
  by (auto simp: isUserActive_def Let_def split: option.splits)

section \<open>Properties of the storage layer and the sign-up route\<close>

text \<open>
  C1. The claim: for a stored message \<open>m\<close> and a caller \<open>u\<close> who does not own it,
  \<open>updateMessage(m.id, u, patch)\<close> returns null and leaves \<open>m\<close> unchanged. The condition
  of the update is written \<open>eq(messages.id, id) && eq(messages.userId, userId)\<close>, which is
  the second operand alone. In the example feed, user 1 patches message 3 of user 2: message 3
  is untouched, but the call returns a row (message 1, patched) and both messages of user 1
  carry the patch.
\<close>

theorem updateMessage_other_user_returns_row:
  "messages (db ex_feed) = [ex_message 1 1 ''a'', ex_message 2 1 ''b'', ex_message 3 2 ''c''] \<and>
   fst (updateMessage 50 3 1 ex_patch ex_feed) = Some ((ex_message 1 1 ''x'')\<lparr>updatedAt := Some 50\<rparr>) \<and>
   messages (db (snd (updateMessage 50 3 1 ex_patch ex_feed))) =
     [(ex_message 1 1 ''x'')\<lparr>updatedAt := Some 50\<rparr>, (ex_message 2 1 ''x'')\<lparr>updatedAt := Some 50\<rparr>,
      ex_message 3 2 ''c'']"
  by (simp add: ex_feed_messages updateMessage_def Let_def update_where_def js_and_objects
      holds_eq_col ex_message_def ex_patch_def)

text \<open>
  C2. The claim: \<open>deleteMessage(m.id, m.userId)\<close> removes the record with id \<open>m.id\<close> and
  no other. With the same condition as in the update, the call removes every message of the
  owner: in the example feed, deleting message 1 as user 1 removes message 2 as well.
\<close>

theorem deleteMessage_removes_other_rows:
  "messages (db ex_feed) = [ex_message 1 1 ''a'', ex_message 2 1 ''b'', ex_message 3 2 ''c''] \<and>
   fst (deleteMessage 1 1 ex_feed) = True \<and>
   messages (db (snd (deleteMessage 1 1 ex_feed))) = [ex_message 3 2 ''c'']"
  by (simp add: ex_feed_messages deleteMessage_def Let_def delete_where_def js_and_objects
      holds_eq_col ex_message_def)

text \<open>
  C3. In every reachable state, for every stored message \<open>m\<close>, the call
  \<open>deleteMessage(m.id, m.userId)\<close> returns true, and \<open>getMessageById(m.id)\<close> on the
  state it leaves finds no record.
\<close>

theorem deleteMessage_own_removes:
  assumes "reachable st" and "m \<in> set (messages (db st))"
  shows "fst (deleteMessage (msg_id m) (userId m) st) = True \<and>
         getMessageById (msg_id m) (snd (deleteMessage (msg_id m) (userId m) st)) = None"
proof -
  have d: "distinct (map msg_id (messages (db st)))"
    using reachable_inv [OF assms(1)] by (simp add: db_inv_def)
  have "filter (holds (js_and (eq_col msg_id (msg_id m)) (eq_col userId (userId m))))
          (messages (db st)) \<noteq> []"
    using assms(2) by (auto simp: js_and_objects holds_eq_col filter_empty_conv)
  then have ret: "fst (deleteMessage (msg_id m) (userId m) st) = True"
    by (simp add: deleteMessage_def Let_def delete_where_def)
  have "m' \<in> set (messages (db st)) \<Longrightarrow> msg_id m' = msg_id m \<Longrightarrow> userId m' = userId m" for m'
    using d assms(2) by (auto simp: distinct_map dest: inj_onD)
  then have "filter (\<lambda>r. msg_id r = msg_id m) (filter (\<lambda>r. userId r \<noteq> userId m) (messages (db st))) = []"
    by (auto simp: filter_empty_conv)
  then have "getMessageById (msg_id m) (snd (deleteMessage (msg_id m) (userId m) st)) = None"
    unfolding getMessageById_def messages_deleteMessage select_where_def
    by (simp add: holds_eq_col)
  with ret show ?thesis by simp
qed

theorem deleteMessage_own_removes_witness:
  "reachable ex_feed \<and> ex_message 3 2 ''c'' \<in> set (messages (db ex_feed)) \<and>
   fst (deleteMessage 3 2 ex_feed) = True \<and>
   getMessageById 3 (snd (deleteMessage 3 2 ex_feed)) = None"
proof -
  have r: "reachable ex_feed" by (rule ex_feed_reachable)
  have m: "ex_message 3 2 ''c'' \<in> set (messages (db ex_feed))"
    by (simp add: ex_feed_messages)
  show ?thesis
    using r m deleteMessage_own_removes [OF r m] by (simp add: ex_message_def)
qed

text \<open>
  C4. \<open>getUsersCount\<close> at time \<open>now\<close> counts exactly the registered users that have no
  heartbeat record or whose last heartbeat is less than five minutes (300000 ms) old; this is
  the test \<open>isUserActive\<close> makes. A user whose heartbeat was recorded at \<open>T\<close> passes the
  test four minutes later and fails it six minutes later.
\<close>

theorem getUsersCount_five_minutes:
  "getUsersCount now st =
     length (filter (\<lambda>u. userActivity st (user_id u) = None \<or>
                          (\<exists>t. userActivity st (user_id u) = Some t \<and> now - t < 5 * 60 * 1000))
               (users (db st))) \<and>
   isUserActive now st uid =
     (userActivity st uid = None \<or> (\<exists>t. userActivity st uid = Some t \<and> now - t < 5 * 60 * 1000)) \<and>
   isUserActive (T + 4 * 60 * 1000) (updateUserActivity T T' a st) a \<and>
   \<not> isUserActive (T + 6 * 60 * 1000) (updateUserActivity T T' a st) a"
proof -
  have "getUsersCount now st = length (filter (\<lambda>u. isUserActive now st (user_id u)) (users (db st)))"
    by (simp add: getUsersCount_def count_fold)
  moreover have "userActivity (updateUserActivity T T' a st) a = Some T"
    by (simp add: updateUserActivity_def Let_def)
  ultimately show ?thesis
    by (simp add: isUserActive_iff)
qed

theorem getUsersCount_five_minutes_witness:
  "getUsersCount (1000 + 4 * 60 * 1000) (updateUserActivity 1000 1001 1 ex_people) = 2 \<and>
   getUsersCount (1000 + 6 * 60 * 1000) (updateUserActivity 1000 1001 1 ex_people) = 1 \<and>
   getUsersCount (1000 + 5 * 60 * 1000) (updateUserActivity 1000 1001 1 ex_people) = 1 \<and>
   isUserActive (1000 + 4 * 60 * 1000) (updateUserActivity 1000 1001 1 ex_people) 1 \<and>
   \<not> isUserActive (1000 + 6 * 60 * 1000) (updateUserActivity 1000 1001 1 ex_people) 1"
proof -
  let ?st = "updateUserActivity 1000 1001 1 ex_people"
  have u: "users (db ?st) =
      [(ex_user 1 ''a'' ''a@x.com'')\<lparr>lastActivity := Some 1001\<rparr>, ex_user 2 ''b'' ''b@x.com'']"
    by (simp add: updateUserActivity_def Let_def update_where_def holds_eq_col ex_people_users
        ex_user_def)
  have a: "userActivity ?st = [1 \<mapsto> 1000]"
    by (simp add: updateUserActivity_def Let_def ex_people_users)
  show ?thesis
    using getUsersCount_five_minutes [of "1000 + 4 * 60 * 1000" ?st 1 1000 1001 1]
      getUsersCount_five_minutes [of "1000 + 6 * 60 * 1000" ?st 1 1000 1001 1]
      getUsersCount_five_minutes [of "1000 + 5 * 60 * 1000" ?st 1 1000 1001 1]
      getUsersCount_five_minutes [of 0 ex_people 1 1000 1001 1]
    by (simp add: u a ex_user_def)
qed

text \<open>
  C5. A sign-up whose validated e-mail address is that of a stored user is answered with
  status 400 and the duplicate-email message, and the state (so the users table) is the one
  before the call.
\<close>

theorem signup_duplicate_email:
  assumes "parse body = Some d" and "u \<in> set (users (db st))" and "email u = su_email d"
  shows "signup parse now body st =
           (\<lparr>status = 400, json = MessageJson ''User with this email already exists''\<rparr>, st)"
proof -
  have "select_where (eq_col email (su_email d)) (users (db st)) \<noteq> []"
    using assms(2,3) by (auto simp: select_where_def holds_eq_col filter_empty_conv)
  then obtain x where "getUserByEmail (su_email d) st = Some x"
    unfolding getUserByEmail_def first_row_take1
    by (cases "select_where (eq_col email (su_email d)) (users (db st))") auto
  then show ?thesis
    using assms(1) by (simp add: signup_def)
qed

theorem signup_duplicate_email_witness:
  "Some (ex_signup ''c'' ''a@x.com'') = Some (ex_signup ''c'' ''a@x.com'') \<and>
   ex_user 1 ''a'' ''a@x.com'' \<in> set (users (db ex_people)) \<and>
   email (ex_user 1 ''a'' ''a@x.com'') = su_email (ex_signup ''c'' ''a@x.com'') \<and>
   signup Some 9 (ex_signup ''c'' ''a@x.com'') ex_people =
     (\<lparr>status = 400, json = MessageJson ''User with this email already exists''\<rparr>, ex_people)"
proof -
  have p: "Some (ex_signup ''c'' ''a@x.com'') = Some (ex_signup ''c'' ''a@x.com'')" by simp
  have u: "ex_user 1 ''a'' ''a@x.com'' \<in> set (users (db ex_people))"
    by (simp add: ex_people_users)
  have e: "email (ex_user 1 ''a'' ''a@x.com'') = su_email (ex_signup ''c'' ''a@x.com'')"
    by (simp add: ex_user_def ex_signup_def)
  show ?thesis
    using u e signup_duplicate_email [of Some, OF p u e, of 9] by simp
qed

text \<open>
  C6. In every reachable state, \<open>setActiveTheme\<close> with an id outside 1..6 fails with
  the theme-not-found error, and \<open>getActiveTheme\<close> afterwards returns what it returned
  before.
\<close>

theorem setActiveTheme_unknown_id:
  assumes "reachable st" and "themeId < 1 \<or> 6 < themeId"
  shows "fst (setActiveTheme themeId st) = Inl (ThemeNotFound themeId) \<and>
         getActiveTheme (snd (setActiveTheme themeId st)) = getActiveTheme st"
proof -
  obtain clock where c: "themes st = initializeThemes clock Map.empty"
    using reachable_themes [OF assms(1)] by blast
  have "themes st themeId = None"
    using assms(2) unfolding c seeded_catalogue by auto
  then show ?thesis
    by (simp add: setActiveTheme_def)
qed

theorem setActiveTheme_unknown_id_witness:
  "reachable ex_feed \<and> ((7::int) < 1 \<or> (6::int) < 7) \<and>
   fst (setActiveTheme 7 ex_feed) = Inl (ThemeNotFound 7) \<and>
   getActiveTheme (snd (setActiveTheme 7 ex_feed)) = getActiveTheme ex_feed \<and>
   theme_id (getActiveTheme ex_feed) = 1"
proof -
  have r: "reachable ex_feed" by (rule ex_feed_reachable)
  have h: "(7::int) < 1 \<or> (6::int) < 7" by simp
  have "theme_id (getActiveTheme ex_feed) = 1"
    by (simp add: getActiveTheme_def ex_feed_theme defaultThemes_def)
  then show ?thesis
    using r setActiveTheme_unknown_id [OF r h] by simp
qed

text \<open>
  C7. The claim: \<open>getMessages\<close> returns the stored messages with non-decreasing
  \<open>createdAt\<close>, messages of equal \<open>createdAt\<close> in insertion order. The in-memory storage
  of the same interface keeps that order: it sorts the values of its map, which are in
  insertion order, with a stable sort. The database query orders by \<open>createdAt\<close> and by
  nothing else. In the example room the messages 2 and 3 carry the same
  \<open>createdAt\<close>; before the edit they come back as 1, 2, 3; after user 1 edited message 2,
  a database that holds the rewritten row behind the others returns 1, 3, 2.
\<close>

theorem getMessages_ties_after_edit:
  "messages (db ex_room) =
     [(ex_message 1 3 ''a'')\<lparr>msg_createdAt := 3\<rparr>, ex_message 2 1 ''b'', ex_message 3 2 ''c''] \<and>
   getMessages edited_last ex_room =
     [(ex_message 1 3 ''a'')\<lparr>msg_createdAt := 3\<rparr>, ex_message 2 1 ''b'', ex_message 3 2 ''c''] \<and>
   messages (db ex_edited) =
     [(ex_message 1 3 ''a'')\<lparr>msg_createdAt := 3\<rparr>, (ex_message 2 1 ''x'')\<lparr>updatedAt := Some 50\<rparr>,
      ex_message 3 2 ''c''] \<and>
   mset (edited_last (messages (db ex_edited))) = mset (messages (db ex_edited)) \<and>
   getMessages edited_last ex_edited =
     [(ex_message 1 3 ''a'')\<lparr>msg_createdAt := 3\<rparr>, ex_message 3 2 ''c'',
      (ex_message 2 1 ''x'')\<lparr>updatedAt := Some 50\<rparr>] \<and>
   msg_createdAt ((ex_message 2 1 ''x'')\<lparr>updatedAt := Some 50\<rparr>) = msg_createdAt (ex_message 3 2 ''c'')"
  by (simp add: ex_edited_def ex_room_messages messages_updateMessage getMessages_def orderBy_def
      edited_last_def ex_message_def ex_patch_def)

text \<open>
  C8. Whatever the order in which the database delivers the rows of the users table,
  \<open>getAllUsers\<close> and \<open>getOnlineUsers\<close> each return one object per row of the table, carrying
  the id of its row (\<open>getOnlineUsers\<close> leaves no user out), and no returned object has a
  \<open>password\<close> key.
\<close>

theorem user_listings_strip_password:
  assumes "mset (scan (users (db st))) = mset (users (db st))"
    and "mset (scan' (users (db st))) = mset (users (db st))"
  shows "length (getAllUsers scan st) = length (users (db st)) \<and>
         length (getOnlineUsers scan' st) = length (users (db st)) \<and>
         mset (map (\<lambda>r. map_of r ''id'') (getAllUsers scan st)) =
           mset (map (\<lambda>u. Some (JNum (user_id u))) (users (db st))) \<and>
         mset (map (\<lambda>r. map_of r ''id'') (getOnlineUsers scan' st)) =
           mset (map (\<lambda>u. Some (JNum (user_id u))) (users (db st))) \<and>
         (\<forall>r \<in> set (getAllUsers scan st) \<union> set (getOnlineUsers scan' st).
            ''password'' \<notin> fst ` set r)"
proof -
  have a: "\<forall>r \<in> set (getAllUsers scan st). ''password'' \<notin> fst ` set r"
    unfolding getAllUsers_def using password_stripped by auto
  have "''password'' \<notin> fst ` set (AList.update ''lastActivity'' v (userWithoutPassword obj))" for v obj
    using password_stripped [of obj] by (simp add: AList.dom_update)
  then have b: "\<forall>r \<in> set (getOnlineUsers scan' st). ''password'' \<notin> fst ` set r"
    unfolding getOnlineUsers_def Let_def by auto
  have "map (\<lambda>r. map_of r ''id'') (getAllUsers scan st) =
          map (\<lambda>u. Some (JNum (user_id u))) (scan (users (db st)))"
    by (simp add: getAllUsers_def id_kept comp_def)
  then have c: "mset (map (\<lambda>r. map_of r ''id'') (getAllUsers scan st)) =
      mset (map (\<lambda>u. Some (JNum (user_id u))) (users (db st)))"
    using assms(1) by simp
  have "map (\<lambda>r. map_of r ''id'') (getOnlineUsers scan' st) =
          map (\<lambda>u. Some (JNum (user_id u))) (scan' (users (db st)))"
    by (simp add: getOnlineUsers_def Let_def AList.update_conv id_kept comp_def)
  then have d: "mset (map (\<lambda>r. map_of r ''id'') (getOnlineUsers scan' st)) =
      mset (map (\<lambda>u. Some (JNum (user_id u))) (users (db st)))"
    using assms(2) by simp
  have la: "length (getAllUsers scan st) = length (users (db st))"
    using mset_eq_length [OF assms(1)] by (simp add: getAllUsers_def)
  have lo: "length (getOnlineUsers scan' st) = length (users (db st))"
    using mset_eq_length [OF assms(2)] by (simp add: getOnlineUsers_def)
  from a b c d la lo show ?thesis
    by blast
qed

theorem user_listings_strip_password_witness:
  "mset (heartbeat_last (users (db ex_seen))) = mset (users (db ex_seen)) \<and>
   map user_id (users (db ex_seen)) = [1, 2] \<and>
   length (getAllUsers heartbeat_last ex_seen) = 2 \<and>
   length (getOnlineUsers heartbeat_last ex_seen) = 2 \<and>
   map_of (getAllUsers heartbeat_last ex_seen ! 0) ''id'' = Some (JNum 2) \<and>
   map_of (getAllUsers heartbeat_last ex_seen ! 1) ''id'' = Some (JNum 1) \<and>
   map_of (getOnlineUsers heartbeat_last ex_seen ! 0) ''id'' = Some (JNum 2) \<and>
   map_of (getOnlineUsers heartbeat_last ex_seen ! 1) ''id'' = Some (JNum 1) \<and>
   ''password'' \<notin> fst ` set (getAllUsers heartbeat_last ex_seen ! 0) \<and>
   ''password'' \<notin> fst ` set (getAllUsers heartbeat_last ex_seen ! 1) \<and>
   ''password'' \<notin> fst ` set (getOnlineUsers heartbeat_last ex_seen ! 0) \<and>
   ''password'' \<notin> fst ` set (getOnlineUsers heartbeat_last ex_seen ! 1) \<and>
   map_of (user_object (users (db ex_seen) ! 0)) ''password'' = Some (JStr ''pw'')"
proof -
  have h: "mset (heartbeat_last (users (db ex_seen))) = mset (users (db ex_seen))"
    by (simp add: ex_seen_users heartbeat_last_def ex_user_def)
  note t = user_listings_strip_password [of heartbeat_last ex_seen heartbeat_last, OF h h]
  have n: "length (users (db ex_seen)) = 2"
    by (simp add: ex_seen_users)
  have la: "length (getAllUsers heartbeat_last ex_seen) = 2"
    and lo: "length (getOnlineUsers heartbeat_last ex_seen) = 2"
    using t n by simp_all
  have mem: "getAllUsers heartbeat_last ex_seen ! 0 \<in> set (getAllUsers heartbeat_last ex_seen)"
    "getAllUsers heartbeat_last ex_seen ! 1 \<in> set (getAllUsers heartbeat_last ex_seen)"
    "getOnlineUsers heartbeat_last ex_seen ! 0 \<in> set (getOnlineUsers heartbeat_last ex_seen)"
    "getOnlineUsers heartbeat_last ex_seen ! 1 \<in> set (getOnlineUsers heartbeat_last ex_seen)"
    using la lo by simp_all
  have ids: "map user_id (users (db ex_seen)) = [1, 2]"
    "map_of (getAllUsers heartbeat_last ex_seen ! 0) ''id'' = Some (JNum 2)"
    "map_of (getAllUsers heartbeat_last ex_seen ! 1) ''id'' = Some (JNum 1)"
    "map_of (getOnlineUsers heartbeat_last ex_seen ! 0) ''id'' = Some (JNum 2)"
    "map_of (getOnlineUsers heartbeat_last ex_seen ! 1) ''id'' = Some (JNum 1)"
    by (simp_all add: getAllUsers_def getOnlineUsers_def Let_def heartbeat_last_def ex_seen_users
        ex_user_def id_kept AList.update_conv)
  have pw: "map_of (user_object (users (db ex_seen) ! 0)) ''password'' = Some (JStr ''pw'')"
    by (simp add: ex_seen_users user_object_def ex_user_def)
  from t mem have
    "''password'' \<notin> fst ` set (getAllUsers heartbeat_last ex_seen ! 0)"
    "''password'' \<notin> fst ` set (getAllUsers heartbeat_last ex_seen ! 1)"
    "''password'' \<notin> fst ` set (getOnlineUsers heartbeat_last ex_seen ! 0)"
    "''password'' \<notin> fst ` set (getOnlineUsers heartbeat_last ex_seen ! 1)"
    by blast+
  with h la lo ids pw show ?thesis
    by blast
qed

text \<open>
  C9. In every reachable state, the user that \<open>createUser\<close> returns has an id strictly
  greater than the id of every user already in the table, whatever the payload.
\<close>

theorem createUser_id_above_all:
  assumes "reachable st"
  shows "\<forall>u \<in> set (users (db st)). user_id u < user_id (fst (createUser now d st))"
proof -
  have "\<forall>u \<in> set (users (db st)). user_id u \<le> users_id_seq (db st)"
    using reachable_inv [OF assms] by (simp add: db_inv_def)
  moreover have "user_id (fst (createUser now d st)) = users_id_seq (db st) + 1"
    by (simp add: createUser_def Let_def)
  ultimately show ?thesis by fastforce
qed

theorem createUser_id_above_all_witness:
  "reachable ex_people \<and>
   users (db ex_people) = [ex_user 1 ''a'' ''a@x.com'', ex_user 2 ''b'' ''b@x.com''] \<and>
   user_id (ex_user 1 ''a'' ''a@x.com'') < user_id (fst (createUser 9 (ex_signup ''c'' ''c@x.com'') ex_people)) \<and>
   user_id (ex_user 2 ''b'' ''b@x.com'') < user_id (fst (createUser 9 (ex_signup ''c'' ''c@x.com'') ex_people)) \<and>
   user_id (fst (createUser 9 (ex_signup ''c'' ''c@x.com'') ex_people)) = 3"
proof -
  have r: "reachable ex_people" by (rule ex_people_reachable)
  have "user_id (fst (createUser 9 (ex_signup ''c'' ''c@x.com'') ex_people)) = 3"
    by (simp add: createUser_def Let_def ex_people_users)
  then show ?thesis
    using r createUser_id_above_all [OF r, of 9 "ex_signup ''c'' ''c@x.com''"]
    by (simp add: ex_people_users)
qed

text \<open>
  C10. In every reachable state the catalogue carries the seeded flags: \<open>isActive\<close> is
  true for theme 1 and false for every other theme. A successful \<open>setActiveTheme(t)\<close> with
  \<open>t \<noteq> 1\<close> leaves the catalogue as it was, so \<open>getActiveTheme\<close> then returns a theme whose
  \<open>isActive\<close> is false while theme 1 still has \<open>isActive\<close> true.
\<close>

theorem setActiveTheme_keeps_isActive:
  assumes "reachable st" and "setActiveTheme t st = (Inr th, st')" and "t \<noteq> 1"
  shows "themes st' = themes st \<and>
         (\<forall>i x. themes st i = Some x \<longrightarrow> isActive x = (i = 1)) \<and>
         getActiveTheme st' = th \<and> themes st t = Some th \<and>
         \<not> isActive (getActiveTheme st') \<and>
         (\<exists>x. themes st' 1 = Some x \<and> isActive x)"
proof -
  obtain clock where c: "themes st = initializeThemes clock Map.empty"
    using reachable_themes [OF assms(1)] by blast
  have flags: "\<forall>i x. themes st i = Some x \<longrightarrow> isActive x = (i = 1)"
    unfolding c seeded_catalogue by (auto simp: defaultThemes_def split: if_splits)
  have one: "\<exists>x. themes st 1 = Some x \<and> isActive x"
    unfolding c seeded_catalogue by (simp add: defaultThemes_def)
  from assms(2) have th: "themes st t = Some th" and st': "st' = st\<lparr>currentTheme := th\<rparr>"
    by (auto simp: setActiveTheme_def split: option.splits)
  from flags th assms(3) have "\<not> isActive th" by blast
  with flags one th st' show ?thesis
    by (simp add: getActiveTheme_def)
qed

theorem setActiveTheme_keeps_isActive_witness:
  "reachable ex_feed \<and>
   setActiveTheme 3 ex_feed = (Inr (defaultThemes ex_clock ! 2), ex_feed\<lparr>currentTheme := defaultThemes ex_clock ! 2\<rparr>) \<and>
   (3::int) \<noteq> 1 \<and>
   theme_name (getActiveTheme (ex_feed\<lparr>currentTheme := defaultThemes ex_clock ! 2\<rparr>)) = ''Forest Green'' \<and>
   \<not> isActive (getActiveTheme (ex_feed\<lparr>currentTheme := defaultThemes ex_clock ! 2\<rparr>)) \<and>
   (\<exists>x. themes (ex_feed\<lparr>currentTheme := defaultThemes ex_clock ! 2\<rparr>) 1 = Some x \<and> isActive x)"
proof -
  have r: "reachable ex_feed" by (rule ex_feed_reachable)
  have s: "setActiveTheme 3 ex_feed =
      (Inr (defaultThemes ex_clock ! 2), ex_feed\<lparr>currentTheme := defaultThemes ex_clock ! 2\<rparr>)"
    by (simp add: setActiveTheme_def ex_feed_theme seeded_catalogue)
  have n: "(3::int) \<noteq> 1" by simp
  have "theme_name (getActiveTheme (ex_feed\<lparr>currentTheme := defaultThemes ex_clock ! 2\<rparr>)) = ''Forest Green''"
    by (simp add: getActiveTheme_def defaultThemes_def)
  then show ?thesis
    using r s setActiveTheme_keeps_isActive [OF r s n] by (simp add: getActiveTheme_def)
qed

end
